theory Spec2Isabelle
  imports Complex_Main
begin

section \<open>Python values and library calls used by the notebooks\<close>

text \<open>
  The notebooks are Python programs over a relational pipeline. Exceptions are values of
  the type \<open>error\<close>; a call that can raise returns \<open>error + 'a\<close>, with \<open>Inl\<close> the
  exception.
\<close>

datatype error =
    KeyError string
  | ValueError
  | TypeError
  | IndexError
  | FileNotFoundError string
  | DuplicateError
  | DataJointError

subsection \<open>\<open>str\<close> of an integer\<close>

definition digit_char :: "nat \<Rightarrow> char" where
  "digit_char d = ''0123456789'' ! d"

fun str_nat :: "nat \<Rightarrow> string" where
  "str_nat n = (if n < 10 then [digit_char n] else str_nat (n div 10) @ [digit_char (n mod 10)])"

declare str_nat.simps [simp del]

definition str_int :: "int \<Rightarrow> string" where
  "str_int i = (if i < 0 then CHR ''-'' # str_nat (nat (- i)) else str_nat (nat i))"

subsection \<open>\<open>str.format\<close> with named fields\<close>

text \<open>
  The templates of the notebooks use literal text and replacement fields \<open>{name}\<close> only.
  \<open>format_from None\<close> reads literal text, \<open>format_from (Some n)\<close> reads a field name
  whose first characters are \<open>n\<close>. A field that is never closed and a single closing
  brace raise ValueError, a name without a keyword argument raises KeyError, as in Python.
  Doubled braces, conversions and format specifications do not occur in the templates and
  are not part of this model: a field name containing one of their characters is rejected.
\<close>

definition field_char :: "char \<Rightarrow> bool" where
  "field_char c = (c \<notin> set ''{!:.[]'')"

fun format_from :: "string option \<Rightarrow> string \<Rightarrow> (string \<rightharpoonup> string) \<Rightarrow> error + string" where
  "format_from None [] kw = Inr []"
| "format_from (Some n) [] kw = Inl ValueError"
| "format_from None (c # cs) kw =
     (if c = CHR ''{'' then format_from (Some []) cs kw
      else if c = CHR ''}'' then Inl ValueError
      else map_sum id ((#) c) (format_from None cs kw))"
| "format_from (Some n) (c # cs) kw =
     (if c = CHR ''}'' then
        (case kw n of
           None \<Rightarrow> Inl (KeyError n)
         | Some v \<Rightarrow> map_sum id ((@) v) (format_from None cs kw))
      else if field_char c then format_from (Some (n @ [c])) cs kw
      else Inl ValueError)"

definition py_format :: "string \<Rightarrow> (string \<rightharpoonup> string) \<Rightarrow> error + string" where
  "py_format template kw = format_from None template kw"

subsection \<open>\<open>os.path.join\<close> of two components (POSIX)\<close>

definition os_path_join :: "string \<Rightarrow> string \<Rightarrow> string" where
  "os_path_join a b =
     (if take 1 b = ''/'' then b
      else if a = [] \<or> last a = CHR ''/'' then a @ b
      else a @ ''/'' @ b)"

subsection \<open>Arrays\<close>

text \<open>
  A NumPy array is its shape and its elements in row-major order.
\<close>

record 'a ndarray =
  shape :: "nat list"
  flat :: "'a list"


text \<open>
  Iterating an array yields its slices along the first axis; an array without axes cannot
  be iterated.
\<close>

definition slice0 :: "'a ndarray \<Rightarrow> nat \<Rightarrow> 'a ndarray" where
  "slice0 a i =
     (let m = prod_list (tl (shape a))
      in \<lparr>shape = tl (shape a), flat = take m (drop (i * m) (flat a))\<rparr>)"

definition np_iter :: "'a ndarray \<Rightarrow> error + 'a ndarray list" where
  "np_iter a =
     (case shape a of
        [] \<Rightarrow> Inl TypeError
      | n # _ \<Rightarrow> Inr (map (slice0 a) [0..<n]))"

subsection \<open>Floating point\<close>

text \<open>
  A float64 value is a finite rational, an infinity or a NaN (the sign of zero is not
  kept). \<open>float64\<close> rounds a rational to the nearest float64, ties to the even significand:
  53 significant bits, the exponent of the last bit not below \<open>-1074\<close> (subnormal numbers),
  and infinity once the rounded magnitude reaches \<open>2 ^ 1024\<close>. \<open>bit_length\<close> is the number
  of binary digits of a positive integer and \<open>ilog2 a\<close> the integer part of the binary
  logarithm of a positive rational.
\<close>

datatype fval = Finite rat | PosInf | NegInf | NaN

function bit_length :: "int \<Rightarrow> nat" where
  "bit_length n = (if n \<le> 0 then 0 else Suc (bit_length (n div 2)))"
  by pat_completeness auto
termination
  by (relation "measure nat") auto

declare bit_length.simps [simp del]

definition ilog2 :: "rat \<Rightarrow> int" where
  "ilog2 a =
     (let d = int (bit_length (fst (quotient_of a))) - int (bit_length (snd (quotient_of a)))
      in if 2 powi d \<le> a then d else d - 1)"

definition round_half_even :: "rat \<Rightarrow> int" where
  "round_half_even y =
     (let f = \<lfloor>y\<rfloor>; r = y - of_int f
      in if r < 1 / 2 then f else if 1 / 2 < r then f + 1 else if even f then f else f + 1)"

definition float64 :: "rat \<Rightarrow> fval" where
  "float64 x =
     (if x = 0 then Finite 0
      else
        let a = \<bar>x\<bar>;
            e = max (- 1074) (ilog2 a - 52);
            r = of_int (round_half_even (a / 2 powi e)) * 2 powi e
        in if 2 ^ 1024 \<le> r then (if 0 < x then PosInf else NegInf)
           else Finite (if 0 < x then r else - r))"


text \<open>Addition of two float64 values, and division of a float64 value by a count.\<close>

fun fadd :: "fval \<Rightarrow> fval \<Rightarrow> fval" where
  "fadd (Finite a) (Finite b) = float64 (a + b)"
| "fadd NaN y = NaN"
| "fadd x NaN = NaN"
| "fadd PosInf NegInf = NaN"
| "fadd NegInf PosInf = NaN"
| "fadd PosInf y = PosInf"
| "fadd x PosInf = PosInf"
| "fadd NegInf y = NegInf"
| "fadd x NegInf = NegInf"

fun fdiv :: "fval \<Rightarrow> nat \<Rightarrow> fval" where
  "fdiv (Finite a) n =
     (if n = 0 then (if a = 0 then NaN else if 0 < a then PosInf else NegInf)
      else float64 (a / of_nat n))"
| "fdiv x n = x"

section \<open>Tables\<close>

text \<open>
  A table is the list of its rows, each a primary key with the remaining attributes.
  \<open>insert1\<close> raises on a duplicate primary key.
\<close>

type_synonym ('k, 'v) table = "('k \<times> 'v) list"

definition keys :: "('k, 'v) table \<Rightarrow> 'k list" where
  "keys t = map fst t"

definition insert1 :: "'k \<times> 'v \<Rightarrow> ('k, 'v) table \<Rightarrow> error + ('k, 'v) table" where
  "insert1 row t = (if fst row \<in> set (keys t) then Inl DuplicateError else Inr (t @ [row]))"

text \<open>Primary keys, inherited along the dependencies of the schema.\<close>

record session_key =
  mouse_id :: int
  session_date :: string

record neuron_key = session_key +
  neuron_id :: nat

section \<open>Electrophysiology: \<open>Neuron.make\<close>\<close>

text \<open>
  The file system is a partial function from paths to saved arrays. \<open>data_dir\<close> is the
  directory exported by the pipeline package.
\<close>

definition data_file :: "string \<Rightarrow> session_key \<Rightarrow> error + string" where
  "data_file data_dir key =
     py_format ''{data_dir}/data_{mouse_id}_{session_date}.npy''
       [''mouse_id'' \<mapsto> str_int (mouse_id key),
        ''session_date'' \<mapsto> session_date key,
        ''data_dir'' \<mapsto> data_dir]"

fun Neuron_loop ::
  "session_key \<Rightarrow> (nat \<times> 'a) list \<Rightarrow> (neuron_key, 'a) table \<Rightarrow> error + (neuron_key, 'a) table"
where
  "Neuron_loop key [] t = Inr t"
| "Neuron_loop key ((idx, d) # rest) t =
     (case insert1
        (\<lparr>mouse_id = mouse_id key, session_date = session_date key, neuron_id = idx\<rparr>, d) t of
        Inl e \<Rightarrow> Inl e
      | Inr t' \<Rightarrow> Neuron_loop key rest t')"

definition Neuron_make ::
  "(string \<rightharpoonup> rat ndarray) \<Rightarrow> string \<Rightarrow> session_key \<Rightarrow> (neuron_key, rat ndarray) table
     \<Rightarrow> error + (neuron_key, rat ndarray) table"
where
  "Neuron_make files data_dir key t =
     (case data_file data_dir key of
        Inl e \<Rightarrow> Inl e
      | Inr path \<Rightarrow>
          (case files path of
             None \<Rightarrow> Inl (FileNotFoundError path)
           | Some data \<Rightarrow>
               (case np_iter data of
                  Inl e \<Rightarrow> Inl e
                | Inr ds \<Rightarrow> Neuron_loop key (enumerate 0 ds) t)))"

section \<open>Calcium imaging: schema\<close>

text \<open>
  The primary keys follow the dependencies of the table definitions: \<open>Scan\<close> extends
  \<open>Session\<close> by \<open>scan_idx\<close>, \<open>Segmentation\<close> joins \<open>AverageFrame\<close> (keyed like \<open>Scan\<close>)
  with \<open>SegmentationParam\<close>, and the part table \<open>Roi\<close> extends its master by \<open>roi_idx\<close>.
  \<open>Session\<close> is declared in the pipeline package; its attributes are those the notebooks
  insert and fetch.
\<close>

record scan_key = session_key +
  scan_idx :: int

record seg_key = scan_key +
  seg_param_id :: int

record roi_key = seg_key +
  roi_idx :: nat

record session_attrs =
  experiment_setup :: int
  experimenter :: string
  data_path :: string

record scan_attrs =
  depth :: rat
  wavelength :: rat
  laser_power :: rat
  fps :: rat
  file_name :: string

record seg_param =
  threshold :: rat
  size_cutoff :: rat

text \<open>
  Image data read from a file is a finite number. The average frame is an array of float64
  values. The times and traces of \<open>Fluorescence\<close> are kept as exact values, \<open>None\<close> where
  NumPy yields no finite number; no statement below depends on them.
\<close>

record db =
  Session :: "(session_key, session_attrs) table"
  Scan :: "(scan_key, scan_attrs) table"
  AverageFrame :: "(scan_key, fval ndarray) table"
  SegmentationParam :: "(int, seg_param) table"
  Segmentation :: "(seg_key, nat ndarray) table"
  Roi :: "(roi_key, bool ndarray) table"
  Fluorescence :: "(seg_key, rat option list) table"
  Trace :: "(roi_key, rat option list) table"

definition session_of :: "'a session_key_scheme \<Rightarrow> session_key" where
  "session_of k = \<lparr>mouse_id = mouse_id k, session_date = session_date k\<rparr>"

definition scan_of :: "'a scan_key_scheme \<Rightarrow> scan_key" where
  "scan_of k = \<lparr>mouse_id = mouse_id k, session_date = session_date k, scan_idx = scan_idx k\<rparr>"

definition seg_of :: "'a seg_key_scheme \<Rightarrow> seg_key" where
  "seg_of k =
     \<lparr>mouse_id = mouse_id k, session_date = session_date k, scan_idx = scan_idx k,
      seg_param_id = seg_param_id k\<rparr>"

definition roi_of :: "seg_key \<Rightarrow> nat \<Rightarrow> roi_key" where
  "roi_of k i =
     \<lparr>mouse_id = mouse_id k, session_date = session_date k, scan_idx = scan_idx k,
      seg_param_id = seg_param_id k, roi_idx = i\<rparr>"

subsection \<open>Restriction, fetch and insert\<close>

definition bind_err :: "error + 'a \<Rightarrow> ('a \<Rightarrow> error + 'b) \<Rightarrow> error + 'b" where
  "bind_err x f = (case x of Inl e \<Rightarrow> Inl e | Inr v \<Rightarrow> f v)"

definition restrict :: "('k \<Rightarrow> bool) \<Rightarrow> ('k, 'v) table \<Rightarrow> ('k, 'v) table" where
  "restrict P t = filter (\<lambda>r. P (fst r)) t"

text \<open>\<open>fetch1\<close> raises unless the restricted table has exactly one row.\<close>

definition fetch1 :: "('k, 'v) table \<Rightarrow> error + 'v" where
  "fetch1 t = (case t of [r] \<Rightarrow> Inr (snd r) | _ \<Rightarrow> Inl DataJointError)"

definition insert_rows :: "('k \<times> 'v) list \<Rightarrow> ('k, 'v) table \<Rightarrow> error + ('k, 'v) table" where
  "insert_rows rows t =
     (if distinct (map fst rows) \<and> list_all (\<lambda>r. fst r \<notin> set (keys t)) rows
      then Inr (t @ rows) else Inl DuplicateError)"

subsection \<open>The rows the notebook inserts into \<open>Scan\<close>\<close>

definition Scan_inserted :: "(scan_key, scan_attrs) table" where
  "Scan_inserted =
     [(\<lparr>mouse_id = 0, session_date = ''2017-05-15'', scan_idx = 1\<rparr>,
       \<lparr>depth = 150, wavelength = 920, laser_power = 26, fps = 15,
        file_name = ''example_scan_01.tif''\<rparr>),
      (\<lparr>mouse_id = 0, session_date = ''2017-05-15'', scan_idx = 2\<rparr>,
       \<lparr>depth = 200, wavelength = 920, laser_power = 24, fps = 15,
        file_name = ''example_scan_02.tif''\<rparr>),
      (\<lparr>mouse_id = 100, session_date = ''2017-05-25'', scan_idx = 1\<rparr>,
       \<lparr>depth = 150, wavelength = 920, laser_power = 25, fps = 15,
        file_name = ''example_scan_03.tif''\<rparr>)]"

definition is_digit :: "char \<Rightarrow> bool" where
  "is_digit c = (c \<in> set ''0123456789'')"

definition is_example_scan_name :: "string \<Rightarrow> bool" where
  "is_example_scan_name s =
     (length s = 19 \<and> take 13 s = ''example_scan_'' \<and> is_digit (s ! 13) \<and> is_digit (s ! 14)
      \<and> drop 15 s = ''.tif'')"

section \<open>Calcium imaging: \<open>AverageFrame.make\<close>\<close>

text \<open>
  \<open>np.mean(im, axis=0)\<close> converts the elements to float64, adds the slices along the first
  axis element by element, one after the other, and divides the sums by the number of
  slices; every addition and the division round to float64. The mean over no slice is NaN.
\<close>

definition np_mean_axis0 :: "rat ndarray \<Rightarrow> error + fval ndarray" where
  "np_mean_axis0 a =
     (case shape a of
        [] \<Rightarrow> Inl ValueError
      | n # rest \<Rightarrow>
          (let slices = map (\<lambda>k. map float64 (flat (slice0 a k))) [0..<n];
               total = (case slices of
                          [] \<Rightarrow> replicate (prod_list rest) (Finite 0)
                        | s # ss \<Rightarrow> foldl (map2 fadd) s ss)
           in Inr \<lparr>shape = rest, flat = map (\<lambda>s. fdiv s n) total\<rparr>))"

text \<open>
  The path of the image file of a scan: \<open>data_path\<close> fetched from \<open>Session\<close> and \<open>file_name\<close>
  fetched from \<open>Scan\<close>, both restricted by the key, joined by \<open>os.path.join\<close>.
\<close>

definition image_path :: "'a scan_key_scheme \<Rightarrow> db \<Rightarrow> error + string" where
  "image_path key d =
     bind_err (fetch1 (restrict (\<lambda>k. k = session_of key) (Session d))) (\<lambda>s.
     bind_err (fetch1 (restrict (\<lambda>k. k = scan_of key) (Scan d))) (\<lambda>sc.
     Inr (os_path_join (data_path s) (file_name sc))))"

definition imread :: "(string \<rightharpoonup> rat ndarray) \<Rightarrow> string \<Rightarrow> error + rat ndarray" where
  "imread files path = (case files path of None \<Rightarrow> Inl (FileNotFoundError path) | Some im \<Rightarrow> Inr im)"

definition AverageFrame_make :: "(string \<rightharpoonup> rat ndarray) \<Rightarrow> scan_key \<Rightarrow> db \<Rightarrow> error + db" where
  "AverageFrame_make files key d =
     bind_err (image_path key d) (\<lambda>path.
     bind_err (imread files path) (\<lambda>im.
     bind_err (np_mean_axis0 im) (\<lambda>avg_image.
     bind_err (insert1 (key, avg_image) (AverageFrame d)) (\<lambda>t.
     Inr (d\<lparr>AverageFrame := t\<rparr>)))))"

section \<open>Calcium imaging: \<open>Segmentation.make\<close>\<close>

text \<open>
  \<open>scipy.ndimage.label\<close> is a parameter \<open>label\<close> of the model: it maps the binary mask to
  the label image and the number of labels. Labels are non-negative integers, 0 the
  background.
\<close>

text \<open>\<open>x > threshold\<close> on a float64 value: false for a NaN.\<close>

definition exceeds :: "rat \<Rightarrow> fval \<Rightarrow> bool" where
  "exceeds thr x =
     (case x of Finite v \<Rightarrow> thr < v | PosInf \<Rightarrow> True | NegInf \<Rightarrow> False | NaN \<Rightarrow> False)"

definition np_unique :: "nat list \<Rightarrow> nat list" where
  "np_unique xs = sort (remdups xs)"

definition np_count :: "nat list \<Rightarrow> nat \<Rightarrow> nat" where
  "np_count xs i = length (filter (\<lambda>x. x = i) xs)"

text \<open>
  \<open>small_size_filter[label_im]\<close> looks every label up as a position in
  \<open>small_size_filter\<close>; a position outside the array raises IndexError.
\<close>

definition index_by :: "bool list \<Rightarrow> nat list \<Rightarrow> error + bool list" where
  "index_by small labs =
     (if list_all (\<lambda>l. l < length small) labs then Inr (map ((!) small) labs)
      else Inl IndexError)"

definition roi_mask :: "nat ndarray \<Rightarrow> nat \<Rightarrow> bool ndarray" where
  "roi_mask label_im i = \<lparr>shape = shape label_im, flat = map (\<lambda>l. l = i) (flat label_im)\<rparr>"

definition Segmentation_compute ::
  "(bool ndarray \<Rightarrow> nat ndarray \<times> nat) \<Rightarrow> seg_key \<Rightarrow> db
     \<Rightarrow> error + nat ndarray \<times> (roi_key \<times> bool ndarray) list"
where
  "Segmentation_compute label key d =
     bind_err (fetch1 (restrict (\<lambda>k. k = scan_of key) (AverageFrame d))) (\<lambda>avg_image.
     bind_err (fetch1 (restrict (\<lambda>k. k = seg_param_id key) (SegmentationParam d))) (\<lambda>param.
       let mask_im = \<lparr>shape = shape avg_image,
                      flat = map (exceeds (threshold param)) (flat avg_image)\<rparr>;
           label_im = fst (label mask_im);
           sizes = map (np_count (flat label_im)) (np_unique (flat label_im));
           small_size_filter = map (\<lambda>s. of_nat s < size_cutoff param) sizes
       in bind_err (index_by small_size_filter (flat label_im)) (\<lambda>pixel_to_remove.
            let label_im' =
                  label_im\<lparr>flat := map2 (\<lambda>l r. if r then 0 else l) (flat label_im) pixel_to_remove\<rparr>;
                rois = map (\<lambda>i. (roi_of key i, roi_mask label_im' i))
                         (tl (np_unique (flat label_im')))
            in Inr (label_im', rois))))"

text \<open>
  An execution of \<open>make\<close> is recorded as the database states it passes through (the state
  it starts in, then the state after each insert), the number it prints in
  \<open>Detected {} ROIs!\<close> if it gets there, and the exception it raises, if any.
\<close>

record run =
  visited :: "db list"
  detected :: "nat option"
  raised :: "error option"

definition Segmentation_make ::
  "(bool ndarray \<Rightarrow> nat ndarray \<times> nat) \<Rightarrow> seg_key \<Rightarrow> db \<Rightarrow> run"
where
  "Segmentation_make label key d =
     (case Segmentation_compute label key d of
        Inl e \<Rightarrow> \<lparr>visited = [d], detected = None, raised = Some e\<rparr>
      | Inr (label_im, rois) \<Rightarrow>
          (case insert1 (key, label_im) (Segmentation d) of
             Inl e \<Rightarrow> \<lparr>visited = [d], detected = None, raised = Some e\<rparr>
           | Inr seg \<Rightarrow>
               (let d1 = d\<lparr>Segmentation := seg\<rparr>
                in case insert_rows rois (Roi d1) of
                     Inl e \<Rightarrow>
                       \<lparr>visited = [d, d1], detected = Some (length rois), raised = Some e\<rparr>
                   | Inr roi \<Rightarrow>
                       \<lparr>visited = [d, d1, d1\<lparr>Roi := roi\<rparr>], detected = Some (length rois),
                        raised = None\<rparr>)))"

section \<open>Calcium imaging: \<open>Fluorescence.make\<close>\<close>

definition np_shape3 :: "'a ndarray \<Rightarrow> error + nat \<times> nat \<times> nat" where
  "np_shape3 a = (case shape a of [n, w, h] \<Rightarrow> Inr (n, w, h) | _ \<Rightarrow> Inl ValueError)"

definition np_reshape :: "nat list \<Rightarrow> 'a ndarray \<Rightarrow> error + 'a ndarray" where
  "np_reshape new a =
     (if prod_list new = length (flat a) then Inr \<lparr>shape = new, flat = flat a\<rparr>
      else Inl ValueError)"

definition np_mean :: "rat list \<Rightarrow> rat option" where
  "np_mean xs = (if xs = [] then None else Some (sum_list xs / of_nat (length xs)))"

definition select :: "'a list \<Rightarrow> bool list \<Rightarrow> 'a list" where
  "select row sel = map fst (filter snd (zip row sel))"

text \<open>
  The loop over the ROIs of the key: each mask is flattened and selects, in every one of the
  \<open>n\<close> flattened frames, the pixels whose mean is the trace value of that frame.
\<close>

fun trace_rows ::
  "nat \<Rightarrow> nat \<Rightarrow> rat ndarray \<Rightarrow> (roi_key \<times> bool ndarray) list
     \<Rightarrow> error + (roi_key \<times> rat option list) list"
where
  "trace_rows n wh im_reshaped [] = Inr []"
| "trace_rows n wh im_reshaped ((roi_key, mask_im) # rest) =
     bind_err (np_reshape [wh] mask_im) (\<lambda>mask_reshaped.
       let trace = map (\<lambda>k. np_mean (select (flat (slice0 im_reshaped k)) (flat mask_reshaped)))
                     [0..<n]
       in bind_err (trace_rows n wh im_reshaped rest) (\<lambda>traces.
            Inr ((roi_key, trace) # traces)))"

definition Fluorescence_load ::
  "(string \<rightharpoonup> rat ndarray) \<Rightarrow> seg_key \<Rightarrow> db \<Rightarrow> error + nat \<times> nat \<times> rat ndarray \<times> rat"
where
  "Fluorescence_load files key d =
     bind_err (image_path key d) (\<lambda>path.
     bind_err (imread files path) (\<lambda>im.
     bind_err (np_shape3 im) (\<lambda>(n, w, h).
     bind_err (np_reshape [n, w * h] im) (\<lambda>im_reshaped.
     bind_err (fetch1 (restrict (\<lambda>k. k = scan_of key) (Scan d))) (\<lambda>sc.
     Inr (n, w * h, im_reshaped, fps sc))))))"

definition Fluorescence_make ::
  "(string \<rightharpoonup> rat ndarray) \<Rightarrow> seg_key \<Rightarrow> db \<Rightarrow> db list \<times> error option"
where
  "Fluorescence_make files key d =
     (case Fluorescence_load files key d of
        Inl e \<Rightarrow> ([d], Some e)
      | Inr (n, wh, im_reshaped, fps') \<Rightarrow>
          (let time = map (\<lambda>t. if fps' = 0 then None else Some (of_nat t / fps')) [0..<n]
           in case insert1 (key, time) (Fluorescence d) of
                Inl e \<Rightarrow> ([d], Some e)
              | Inr fl \<Rightarrow>
                  (let d1 = d\<lparr>Fluorescence := fl\<rparr>
                   in case trace_rows n wh im_reshaped (restrict (\<lambda>k. seg_of k = key) (Roi d1)) of
                        Inl e \<Rightarrow> ([d, d1], Some e)
                      | Inr traces \<Rightarrow>
                          (case insert_rows traces (Trace d1) of
                             Inl e \<Rightarrow> ([d, d1], Some e)
                           | Inr tr \<Rightarrow> ([d, d1, d1\<lparr>Trace := tr\<rparr>], None)))))"

text \<open>A part-table row is an orphan when its master row is absent.\<close>

definition no_orphans :: "db \<Rightarrow> bool" where
  "no_orphans d =
     (list_all (\<lambda>k. seg_of k \<in> set (keys (Segmentation d))) (keys (Roi d))
      \<and> list_all (\<lambda>k. seg_of k \<in> set (keys (Fluorescence d))) (keys (Trace d)))"

section \<open>The \<open>populate\<close> driver\<close>









section \<open>A worked example\<close>

text \<open>
  A small database, a labelling of its masks and an image file, used to run the
  definitions on concrete data.
\<close>

definition example_db :: db where
  "example_db =
     \<lparr>Session =
        [(\<lparr>mouse_id = 0, session_date = ''2017-05-15''\<rparr>,
          \<lparr>experiment_setup = 0, experimenter = ''Edgar Y. Walker'', data_path = ''data''\<rparr>)],
      Scan = Scan_inserted,
      AverageFrame =
        [(\<lparr>mouse_id = 0, session_date = ''2017-05-15'', scan_idx = 1\<rparr>,
          \<lparr>shape = [2, 3], flat = [Finite 60, Finite 10, Finite 70, Finite 60, Finite 10, Finite 10]\<rparr>),
         (\<lparr>mouse_id = 0, session_date = ''2017-05-15'', scan_idx = 2\<rparr>,
          \<lparr>shape = [2, 2], flat = [Finite 60, Finite 70, Finite 80, Finite 90]\<rparr>)],
      SegmentationParam = [(0, \<lparr>threshold = 50, size_cutoff = 2\<rparr>)],
      Segmentation = [], Roi = [], Fluorescence = [], Trace = []\<rparr>"

definition example_label :: "bool ndarray \<Rightarrow> nat ndarray \<times> nat" where
  "example_label m =
     (if flat m = [True, False, True, True, False, False]
      then (\<lparr>shape = [2, 3], flat = [1, 0, 2, 1, 0, 0]\<rparr>, 2)
      else (\<lparr>shape = shape m, flat = map (\<lambda>b. if b then 1 else 0) (flat m)\<rparr>, 1))"

definition example_files :: "string \<rightharpoonup> rat ndarray" where
  "example_files =
     [''data/example_scan_01.tif'' \<mapsto>
        \<lparr>shape = [2, 2, 3], flat = [50, 10, 60, 50, 10, 10, 70, 10, 80, 70, 10, 10]\<rparr>]"

definition example_key :: seg_key where
  "example_key = \<lparr>mouse_id = 0, session_date = ''2017-05-15'', scan_idx = 1, seg_param_id = 0\<rparr>"

definition example_scans :: db where
  "example_scans =
     \<lparr>Session =
        [(\<lparr>mouse_id = 0, session_date = ''2017-05-15''\<rparr>,
          \<lparr>experiment_setup = 0, experimenter = ''Edgar Y. Walker'', data_path = ''data''\<rparr>),
         (\<lparr>mouse_id = 100, session_date = ''2017-05-25''\<rparr>,
          \<lparr>experiment_setup = 1, experimenter = ''Jacob Reimer'', data_path = ''data''\<rparr>)],
      Scan = Scan_inserted, AverageFrame = [], SegmentationParam = [], Segmentation = [],
      Roi = [], Fluorescence = [], Trace = []\<rparr>"

definition example_stacks :: "string \<rightharpoonup> rat ndarray" where
  "example_stacks =
     [''data/example_scan_01.tif'' \<mapsto> \<lparr>shape = [2, 1, 2], flat = [1, 3, 5, 7]\<rparr>,
      ''data/example_scan_02.tif'' \<mapsto> \<lparr>shape = [1, 1, 2], flat = [2, 4]\<rparr>,
      ''data/example_scan_03.tif'' \<mapsto> \<lparr>shape = [1, 1, 1], flat = [9]\<rparr>]"



section \<open>Properties of \<open>Neuron.make\<close>\<close>

lemma Neuron_loop_enumerate:
  "\<forall>k \<in> set (keys t). session_of k = key \<longrightarrow> neuron_id k < i \<Longrightarrow>
   Neuron_loop key (enumerate i ds) t =
     Inr (t @ map (\<lambda>(idx, d). (\<lparr>mouse_id = mouse_id key, session_date = session_date key, neuron_id = idx\<rparr>, d)) (enumerate i ds))"
proof (induction ds arbitrary: i t)
  case Nil
  then show ?case by simp
next
  case (Cons d ds)
  let ?row = "(\<lparr>mouse_id = mouse_id key, session_date = session_date key, neuron_id = i\<rparr>, d)"
  have fresh: "fst ?row \<notin> set (keys t)"
  proof
    assume "fst ?row \<in> set (keys t)"
    with Cons.prems have "session_of (fst ?row) = key \<longrightarrow> neuron_id (fst ?row) < i" by blast
    then show False by (simp add: session_of_def)
  qed
  have ok: "\<forall>k \<in> set (keys (t @ [?row])). session_of k = key \<longrightarrow> neuron_id k < Suc i"
    using Cons.prems by (auto simp: keys_def less_Suc_eq)
  show ?case
    using fresh Cons.IH[OF ok] by (simp add: insert1_def)
qed

text \<open>
  Claim C10. For a session key with no row in \<open>Neuron\<close> yet (the keys \<open>populate\<close> passes),
  \<open>Neuron.make\<close> appends exactly \<open>data.shape[0]\<close> rows, where \<open>data\<close> is the array loaded
  from the session's file: the row at position \<open>idx\<close> has \<open>neuron_id = idx\<close> and as activity
  the \<open>idx\<close>-th slice of the array along its first axis. A file whose first dimension is 1
  (such as the 1-by-1000 example files) yields exactly one row, with \<open>neuron_id = 0\<close>.
\<close>

theorem Neuron_make_rows:
  assumes path: "data_file data_dir key = Inr path"
    and data: "files path = Some data"
    and dims: "shape data = n # rest"
    and fresh: "\<forall>k \<in> set (keys t). session_of k \<noteq> key"
  shows "\<exists>rows. Neuron_make files data_dir key t = Inr (t @ rows) \<and> length rows = n
           \<and> (\<forall>idx < n. rows ! idx =
                 (\<lparr>mouse_id = mouse_id key, session_date = session_date key, neuron_id = idx\<rparr>,
                  slice0 data idx))
           \<and> (n = 1 \<longrightarrow> rows =
                 [(\<lparr>mouse_id = mouse_id key, session_date = session_date key, neuron_id = 0\<rparr>,
                   slice0 data 0)])"
proof -
  let ?mk = "\<lambda>(idx, d). (\<lparr>mouse_id = mouse_id key, session_date = session_date key, neuron_id = idx\<rparr>, d)"
  let ?ds = "map (slice0 data) [0..<n]"
  let ?rows = "map ?mk (enumerate 0 ?ds)"
  have iter: "np_iter data = Inr ?ds"
    by (simp add: np_iter_def dims)
  have "\<forall>k \<in> set (keys t). session_of k = key \<longrightarrow> neuron_id k < 0"
    using fresh by simp
  then have loop: "Neuron_loop key (enumerate 0 ?ds) t = Inr (t @ ?rows)"
    by (rule Neuron_loop_enumerate)
  have run: "Neuron_make files data_dir key t = Inr (t @ ?rows)"
    by (simp add: Neuron_make_def path data iter loop)
  have len: "length ?rows = n" by simp
  have nth: "\<forall>idx < n. ?rows ! idx =
      (\<lparr>mouse_id = mouse_id key, session_date = session_date key, neuron_id = idx\<rparr>, slice0 data idx)"
    by (simp add: nth_enumerate_eq)
  have one: "n = 1 \<longrightarrow> ?rows =
      [(\<lparr>mouse_id = mouse_id key, session_date = session_date key, neuron_id = 0\<rparr>, slice0 data 0)]"
    by (simp add: enumerate_simps)
  show ?thesis
    apply (rule exI[of _ "?rows"])
    using run len nth one by (intro conjI)
qed

theorem Neuron_make_rows_witness:
  "Neuron_make [''data/data_100_2017-05-25.npy'' \<mapsto> \<lparr>shape = [1, 1000], flat = replicate 1000 0\<rparr>]
     ''data'' \<lparr>mouse_id = 100, session_date = ''2017-05-25''\<rparr> []
   = Inr [(\<lparr>mouse_id = 100, session_date = ''2017-05-25'', neuron_id = 0\<rparr>,
           \<lparr>shape = [1000], flat = replicate 1000 0\<rparr>)]"
proof -
  let ?data = "\<lparr>shape = [1, 1000], flat = replicate 1000 (0::rat)\<rparr>"
  let ?files = "[''data/data_100_2017-05-25.npy'' \<mapsto> ?data]"
  let ?key = "\<lparr>mouse_id = 100, session_date = ''2017-05-25''\<rparr>"
  have str: "str_int 100 = ''100''" by code_simp
  have path: "data_file ''data'' ?key = Inr ''data/data_100_2017-05-25.npy''"
    by (simp add: data_file_def py_format_def field_char_def str)
  have data: "?files ''data/data_100_2017-05-25.npy'' = Some ?data" by simp
  have dims: "shape ?data = 1 # [1000]" by simp
  have fresh: "\<forall>k \<in> set (keys ([] :: (neuron_key, rat ndarray) table)). session_of k \<noteq> ?key"
    by (simp add: keys_def)
  have sl: "slice0 ?data 0 = \<lparr>shape = [1000], flat = replicate 1000 0\<rparr>"
    by (simp add: slice0_def)
  from Neuron_make_rows[where files="?files" and data="?data", OF path data dims fresh]
  obtain rows where run: "Neuron_make ?files ''data'' ?key [] = Inr ([] @ rows)"
    and one: "(1::nat) = 1 \<longrightarrow> rows = [(\<lparr>mouse_id = mouse_id ?key, session_date = session_date ?key, neuron_id = 0\<rparr>, slice0 ?data 0)]"
    by blast
  from one have "rows = [(\<lparr>mouse_id = 100, session_date = ''2017-05-25'', neuron_id = 0\<rparr>, \<lparr>shape = [1000], flat = replicate 1000 0\<rparr>)]"
    unfolding sl by simp
  with run show ?thesis by simp
qed

section \<open>Properties of \<open>float64\<close>\<close>

text \<open>An integer of magnitude below \<open>2 ^ 53\<close> is a float64 value.\<close>

lemma bit_length_le: "z < 2 ^ n \<Longrightarrow> bit_length z \<le> n"
proof (induction n arbitrary: z)
  case 0
  then show ?case by (simp add: bit_length.simps)
next
  case (Suc n)
  show ?case
  proof (cases "z \<le> 0")
    case True
    then show ?thesis by (simp add: bit_length.simps)
  next
    case False
    from Suc.prems have "z div 2 < 2 ^ n" by simp
    from Suc.IH[OF this] False show ?thesis
      by (subst bit_length.simps) simp
  qed
qed

lemma round_half_even_of_int [simp]: "round_half_even (of_int k) = k"
  by (simp add: round_half_even_def)

lemma float64_of_int:
  assumes "\<bar>z\<bar> < 2 ^ 53"
  shows "float64 (of_int z) = Finite (of_int z)"
proof (cases "z = 0")
  case True
  then show ?thesis by (simp add: float64_def)
next
  case False
  let ?a = "\<bar>of_int z :: rat\<bar>"
  have a: "?a = of_int \<bar>z\<bar>" by simp
  have q: "quotient_of ?a = (\<bar>z\<bar>, 1)" by (simp only: a quotient_of_rat_of_int)
  have "bit_length \<bar>z\<bar> \<le> 53" using assms by (rule bit_length_le)
  moreover have "bit_length 1 = 1" by (simp add: bit_length.simps)
  ultimately have "ilog2 ?a \<le> 52"
    by (simp add: ilog2_def q Let_def)
  then have "max (- 1074) (ilog2 ?a - 52) \<le> 0" by simp
  then obtain k where e: "max (- 1074) (ilog2 ?a - 52) = - int k"
    by (metis nonpos_int_cases)
  have p: "(2::rat) powi (- int k) = inverse (2 ^ k)"
    by (simp add: power_int_minus)
  have d: "?a / 2 powi (- int k) = of_int (\<bar>z\<bar> * 2 ^ k)"
    by (simp add: p a divide_inverse del: of_int_abs)
  have r: "of_int (round_half_even (?a / 2 powi (- int k))) * (2::rat) powi (- int k) = ?a"
    unfolding d round_half_even_of_int by (simp add: p)
  have small: "\<not> (2 ^ 1024 \<le> ?a)"
  proof -
    have "?a < 2 ^ 53" using assms unfolding a by (metis of_int_less_numeral_power_cancel_iff)
    also have "\<dots> < (2::rat) ^ 1024" by simp
    finally show ?thesis by simp
  qed
  have R: "of_int (round_half_even (?a / 2 powi max (- 1074) (ilog2 ?a - 52)))
             * 2 powi max (- 1074) (ilog2 ?a - 52) = ?a"
    using r unfolding e .
  have nz: "(of_int z :: rat) \<noteq> 0" using False by simp
  have "float64 (of_int z) = Finite (if 0 < (of_int z :: rat) then ?a else - ?a)"
    unfolding float64_def Let_def R using nz small by simp
  then show ?thesis by (simp add: abs_if)
qed



section \<open>Properties of the file names\<close>

lemma fetch1_restrict_mem:
  "fetch1 (restrict P t) = Inr v \<Longrightarrow> \<exists>k. (k, v) \<in> set t \<and> P k"
proof -
  assume a: "fetch1 (restrict P t) = Inr v"
  then obtain r where r: "restrict P t = [r]" and v: "snd r = v"
    by (auto simp: fetch1_def split: list.splits)
  from r have "r \<in> set (filter (\<lambda>r. P (fst r)) t)" by (simp add: restrict_def)
  then have "(fst r, snd r) \<in> set t \<and> P (fst r)" by simp
  with v show ?thesis by blast
qed

lemma bind_err_Inr:
  "bind_err x f = Inr y \<longleftrightarrow> (\<exists>v. x = Inr v \<and> f v = Inr y)"
  by (cases x) (simp_all add: bind_err_def)

lemma bind_err_simps [simp]:
  "bind_err (Inl e) f = Inl e" "bind_err (Inr v) f = f v"
  by (simp_all add: bind_err_def)

lemma scan_names: "list_all (\<lambda>r. is_example_scan_name (file_name (snd r))) Scan_inserted"
  by (simp add: Scan_inserted_def is_example_scan_name_def is_digit_def)

lemma image_path_name:
  assumes "image_path k d = Inr p"
  shows "\<exists>(s::session_attrs) (sc::scan_attrs) kc. (kc, sc) \<in> set (Scan d) \<and> p = os_path_join (data_path s) (file_name sc)"
proof -
  from assms obtain s sc where
    s: "fetch1 (restrict (\<lambda>x. x = session_of k) (Session d)) = Inr s" and
    sc: "fetch1 (restrict (\<lambda>x. x = scan_of k) (Scan d)) = Inr sc" and
    p: "p = os_path_join (data_path s) (file_name sc)"
    by (auto simp: image_path_def bind_err_Inr)
  from fetch1_restrict_mem[OF sc] p show ?thesis by blast
qed

lemma example_mean:
  "np_mean_axis0 \<lparr>shape = [2, 1, 2], flat = [1, 3, 5, 7]\<rparr>
     = Inr \<lparr>shape = [1, 2], flat = [Finite 3, Finite 5]\<rparr>"
proof -
  have f: "float64 1 = Finite 1" "float64 3 = Finite 3" "float64 5 = Finite 5"
    "float64 6 = Finite 6" "float64 7 = Finite 7" "float64 10 = Finite 10"
    using float64_of_int[of 1] float64_of_int[of 3] float64_of_int[of 5]
      float64_of_int[of 6] float64_of_int[of 7] float64_of_int[of 10]
    by simp_all
  show ?thesis
    by (simp add: np_mean_axis0_def slice0_def upt_conv_Cons f Let_def del: One_nat_def)
qed

text \<open>
  Claim C5. The files read for import follow the naming convention. \<open>Neuron.make\<close> builds
  the path \<open>data_dir/data_{mouse_id}_{session_date}.npy\<close> from the primary-key attributes
  of its key and reads the file at that path: without the file it raises
  FileNotFoundError for that path, with the file its result is computed from the array
  the file holds, and no other file matters. Every \<open>file_name\<close> the notebook stores in
  \<open>Scan\<close> has the form \<open>example_scan_NN.tif\<close> with two digits \<open>NN\<close>, so with these rows in
  \<open>Scan\<close> the path that \<open>AverageFrame.make\<close> uses is a directory joined with such a name;
  \<open>AverageFrame.make\<close> reads the file at that path: without the file it raises
  FileNotFoundError for that path, with the file its result is computed from the stack
  the file holds, and no other file matters.
\<close>

theorem import_file_names:
  fixes key :: session_key and k :: scan_key and t :: "(neuron_key, rat ndarray) table"
  shows
  "data_file data_dir key =
     Inr (data_dir @ ''/data_'' @ str_int (mouse_id key) @ ''_'' @ session_date key @ ''.npy'')
   \<and> (files (data_dir @ ''/data_'' @ str_int (mouse_id key) @ ''_'' @ session_date key @ ''.npy'')
        = files' (data_dir @ ''/data_'' @ str_int (mouse_id key) @ ''_'' @ session_date key @ ''.npy'')
      \<longrightarrow> Neuron_make files data_dir key t = Neuron_make files' data_dir key t)
   \<and> (files (data_dir @ ''/data_'' @ str_int (mouse_id key) @ ''_'' @ session_date key @ ''.npy'')
        = None
      \<longrightarrow> Neuron_make files data_dir key t
            = Inl (FileNotFoundError
                (data_dir @ ''/data_'' @ str_int (mouse_id key) @ ''_'' @ session_date key @ ''.npy'')))
   \<and> (files (data_dir @ ''/data_'' @ str_int (mouse_id key) @ ''_'' @ session_date key @ ''.npy'')
        = Some data
      \<longrightarrow> Neuron_make files data_dir key t
            = bind_err (np_iter data) (\<lambda>ds. Neuron_loop key (enumerate 0 ds) t))
   \<and> list_all (\<lambda>r. is_example_scan_name (file_name (snd r))) Scan_inserted
   \<and> (Scan d = Scan_inserted \<longrightarrow> image_path k d = Inr p \<longrightarrow>
        (\<exists>dir name. is_example_scan_name name \<and> p = os_path_join dir name))
   \<and> (image_path k d = Inr p \<longrightarrow> ims p = ims' p \<longrightarrow>
        AverageFrame_make ims k d = AverageFrame_make ims' k d)
   \<and> (image_path k d = Inr p \<longrightarrow> ims p = None \<longrightarrow>
        AverageFrame_make ims k d = Inl (FileNotFoundError p))
   \<and> (image_path k d = Inr p \<longrightarrow> ims p = Some im \<longrightarrow>
        AverageFrame_make ims k d
          = bind_err (np_mean_axis0 im) (\<lambda>avg_image.
            bind_err (insert1 (k, avg_image) (AverageFrame d)) (\<lambda>rows.
            Inr (d\<lparr>AverageFrame := rows\<rparr>))))"
proof (intro conjI impI)
  let ?path = "data_dir @ ''/data_'' @ str_int (mouse_id key) @ ''_'' @ session_date key @ ''.npy''"
  show df: "data_file data_dir key = Inr ?path"
    by (simp add: data_file_def py_format_def field_char_def)
  show "Neuron_make files data_dir key t = Neuron_make files' data_dir key t"
    if "files ?path = files' ?path"
    using that by (simp add: Neuron_make_def df)
  show "Neuron_make files data_dir key t = Inl (FileNotFoundError ?path)"
    if "files ?path = None"
    using that by (simp add: Neuron_make_def df)
  show "Neuron_make files data_dir key t
          = bind_err (np_iter data) (\<lambda>ds. Neuron_loop key (enumerate 0 ds) t)"
    if "files ?path = Some data"
    using that by (simp add: Neuron_make_def df bind_err_def)
  show "list_all (\<lambda>r. is_example_scan_name (file_name (snd r))) Scan_inserted"
    by (rule scan_names)
  show "\<exists>dir name. is_example_scan_name name \<and> p = os_path_join dir name"
    if sc: "Scan d = Scan_inserted" and ip: "image_path k d = Inr p"
  proof -
    from image_path_name[OF ip] obtain s :: session_attrs and sc' :: scan_attrs and kc where
      m: "(kc, sc') \<in> set (Scan d)" and p: "p = os_path_join (data_path s) (file_name sc')"
      by blast
    from m sc scan_names have "is_example_scan_name (file_name sc')"
      by (auto simp: list_all_iff)
    with p show ?thesis by blast
  qed
  show "AverageFrame_make ims k d = AverageFrame_make ims' k d"
    if "image_path k d = Inr p" and "ims p = ims' p"
    using that by (simp add: AverageFrame_make_def imread_def)
  show "AverageFrame_make ims k d = Inl (FileNotFoundError p)"
    if "image_path k d = Inr p" and "ims p = None"
    using that by (simp add: AverageFrame_make_def imread_def)
  show "AverageFrame_make ims k d
          = bind_err (np_mean_axis0 im) (\<lambda>avg_image.
            bind_err (insert1 (k, avg_image) (AverageFrame d)) (\<lambda>rows.
            Inr (d\<lparr>AverageFrame := rows\<rparr>)))"
    if "image_path k d = Inr p" and "ims p = Some im"
    using that by (simp add: AverageFrame_make_def imread_def)
qed

theorem import_file_names_witness:
  "data_file ''data'' \<lparr>mouse_id = 100, session_date = ''2017-05-25''\<rparr>
     = Inr ''data/data_100_2017-05-25.npy''
   \<and> Neuron_make Map.empty ''data'' \<lparr>mouse_id = 100, session_date = ''2017-05-25''\<rparr> []
     = Inl (FileNotFoundError ''data/data_100_2017-05-25.npy'')
   \<and> Neuron_make [''data/data_100_2017-05-25.npy'' \<mapsto> \<lparr>shape = [1, 2], flat = [4, 5]\<rparr>]
       ''data'' \<lparr>mouse_id = 100, session_date = ''2017-05-25''\<rparr> []
     = Inr [(\<lparr>mouse_id = 100, session_date = ''2017-05-25'', neuron_id = 0\<rparr>,
             \<lparr>shape = [2], flat = [4, 5]\<rparr>)]
   \<and> image_path \<lparr>mouse_id = 0, session_date = ''2017-05-15'', scan_idx = 1\<rparr> example_scans
     = Inr ''data/example_scan_01.tif''
   \<and> (\<exists>dir name. is_example_scan_name name \<and> ''data/example_scan_01.tif'' = os_path_join dir name)
   \<and> AverageFrame_make Map.empty
       \<lparr>mouse_id = 0, session_date = ''2017-05-15'', scan_idx = 1\<rparr> example_scans
     = Inl (FileNotFoundError ''data/example_scan_01.tif'')
   \<and> AverageFrame_make example_stacks
       \<lparr>mouse_id = 0, session_date = ''2017-05-15'', scan_idx = 1\<rparr> example_scans
     = Inr (example_scans\<lparr>AverageFrame :=
              [(\<lparr>mouse_id = 0, session_date = ''2017-05-15'', scan_idx = 1\<rparr>,
                \<lparr>shape = [1, 2], flat = [Finite 3, Finite 5]\<rparr>)]\<rparr>)"
proof -
  let ?key = "\<lparr>mouse_id = 100, session_date = ''2017-05-25''\<rparr>"
  let ?k = "\<lparr>mouse_id = 0, session_date = ''2017-05-15'', scan_idx = 1\<rparr>"
  let ?npy = "''data/data_100_2017-05-25.npy''"
  let ?tif = "''data/example_scan_01.tif''"
  let ?data = "\<lparr>shape = [1, 2], flat = [4, 5 :: rat]\<rparr>"
  let ?im = "\<lparr>shape = [2, 1, 2], flat = [1, 3, 5, 7 :: rat]\<rparr>"
  let ?t = "[] :: (neuron_key, rat ndarray) table"
  have str: "str_int 100 = ''100''" by code_simp
  have ip: "image_path ?k example_scans = Inr ?tif"
    by (simp add: image_path_def restrict_def fetch1_def example_scans_def Scan_inserted_def
        session_of_def scan_of_def os_path_join_def)
  have sc: "Scan example_scans = Scan_inserted" by (simp add: example_scans_def)
  have empty: "AverageFrame example_scans = []" by (simp add: example_scans_def)
  note absent = import_file_names[where data_dir = "''data''" and key = ?key
      and files = Map.empty and files' = Map.empty and t = ?t and data = ?data
      and d = example_scans and k = ?k and p = ?tif and ims = Map.empty and ims' = Map.empty
      and im = ?im]
  note present = import_file_names[where data_dir = "''data''" and key = ?key
      and files = "[?npy \<mapsto> ?data]" and files' = "[?npy \<mapsto> ?data]" and t = ?t and data = ?data
      and d = example_scans and k = ?k and p = ?tif and ims = example_stacks
      and ims' = example_stacks and im = ?im]
  have a: "data_file ''data'' ?key = Inr ?npy"
    using absent[THEN conjunct1] by (simp add: str)
  have b: "Neuron_make Map.empty ''data'' ?key ?t = Inl (FileNotFoundError ?npy)"
    using absent[THEN conjunct2, THEN conjunct2, THEN conjunct1] by (simp add: str)
  have "Neuron_make [?npy \<mapsto> ?data] ''data'' ?key ?t
          = bind_err (np_iter ?data) (\<lambda>ds. Neuron_loop ?key (enumerate 0 ds) ?t)"
    using present[THEN conjunct2, THEN conjunct2, THEN conjunct2, THEN conjunct1]
    by (simp add: str)
  then have c: "Neuron_make [?npy \<mapsto> ?data] ''data'' ?key ?t
          = Inr [(\<lparr>mouse_id = 100, session_date = ''2017-05-25'', neuron_id = 0\<rparr>,
                  \<lparr>shape = [2], flat = [4, 5]\<rparr>)]"
    by (simp add: np_iter_def slice0_def insert1_def keys_def)
  have e: "\<exists>dir name. is_example_scan_name name \<and> ?tif = os_path_join dir name"
    using absent[THEN conjunct2, THEN conjunct2, THEN conjunct2, THEN conjunct2, THEN conjunct2,
        THEN conjunct1] sc ip
    by blast
  have f: "AverageFrame_make Map.empty ?k example_scans = Inl (FileNotFoundError ?tif)"
    using absent[THEN conjunct2, THEN conjunct2, THEN conjunct2, THEN conjunct2, THEN conjunct2,
        THEN conjunct2, THEN conjunct2, THEN conjunct1] ip
    by simp
  have img: "example_stacks ?tif = Some ?im" by (simp add: example_stacks_def)
  have "AverageFrame_make example_stacks ?k example_scans
          = bind_err (np_mean_axis0 ?im) (\<lambda>avg_image.
            bind_err (insert1 (?k, avg_image) (AverageFrame example_scans)) (\<lambda>rows.
            Inr (example_scans\<lparr>AverageFrame := rows\<rparr>)))"
    using present[THEN conjunct2, THEN conjunct2, THEN conjunct2, THEN conjunct2, THEN conjunct2,
        THEN conjunct2, THEN conjunct2, THEN conjunct2] ip img
    by blast
  then have g: "AverageFrame_make example_stacks ?k example_scans
     = Inr (example_scans\<lparr>AverageFrame := [(?k, \<lparr>shape = [1, 2], flat = [Finite 3, Finite 5]\<rparr>)]\<rparr>)"
    by (simp add: example_mean empty insert1_def keys_def del: One_nat_def)
  from a b c ip e f g show ?thesis by (intro conjI)
qed

section \<open>Properties of \<open>AverageFrame.make\<close>\<close>








section \<open>Properties of \<open>Segmentation.make\<close>\<close>

lemma np_unique_props:
  "set (np_unique xs) = set xs" "distinct (np_unique xs)" "sorted (np_unique xs)"
  by (simp_all add: np_unique_def)

lemma np_unique_upt:
  assumes "list_all (\<lambda>l. l < length (np_unique xs)) xs"
  shows "np_unique xs = [0..<length (np_unique xs)]"
proof -
  let ?u = "np_unique xs" and ?m = "length (np_unique xs)"
  have sub: "set ?u \<subseteq> {0..<?m}"
    using assms by (auto simp: np_unique_props(1) list_all_iff)
  have "card (set ?u) = ?m"
    by (simp add: distinct_card np_unique_props(2))
  then have "set ?u = {0..<?m}"
    using sub by (intro card_subset_eq) simp_all
  then have "set ?u = set [0..<?m]" by simp
  with np_unique_props(2,3)[of xs] show ?thesis
    by (intro sorted_distinct_set_unique) simp_all
qed

lemma index_by_no_background:
  assumes "xs \<noteq> []" and "0 \<notin> set xs"
  shows "index_by (map f (map g (np_unique xs))) xs = Inl IndexError"
proof -
  have "\<not> list_all (\<lambda>l. l < length (np_unique xs)) xs"
  proof
    assume a: "list_all (\<lambda>l. l < length (np_unique xs)) xs"
    from assms(1) have "np_unique xs \<noteq> []"
      using np_unique_props(1)[of xs] by (metis set_empty)
    then have "0 < length (np_unique xs)" by simp
    then have "0 \<in> set [0..<length (np_unique xs)]" by simp
    then have "0 \<in> set (np_unique xs)" using np_unique_upt[OF a] by simp
    with assms(2) show False by (simp add: np_unique_props(1))
  qed
  then show ?thesis by (simp add: index_by_def)
qed

lemma zip_map_same: "zip xs (map g xs) = map (\<lambda>x. (x, g x)) xs"
  by (induction xs) simp_all

lemma index_by_filtered:
  assumes "index_by (map (\<lambda>s. of_nat s < (c::rat)) (map (np_count xs) (np_unique xs))) xs = Inr rm"
  shows "map2 (\<lambda>l r. if r then 0 else l) xs rm
           = map (\<lambda>l. if of_nat (np_count xs l) < c then 0 else l) xs"
proof -
  let ?u = "np_unique xs"
  let ?small = "map (\<lambda>s. of_nat s < c) (map (np_count xs) ?u)"
  from assms have ok: "list_all (\<lambda>l. l < length ?u) xs" and rm: "rm = map ((!) ?small) xs"
    by (auto simp: index_by_def split: if_splits)
  have u: "?u = [0..<length ?u]" by (rule np_unique_upt[OF ok])
  have "?small ! l = (of_nat (np_count xs l) < c)" if "l \<in> set xs" for l
  proof -
    from that ok have l: "l < length ?u" by (simp add: list_all_iff)
    then have "?u ! l = l" using u by (metis add_0 nth_upt)
    with l show ?thesis by simp
  qed
  then show ?thesis by (simp add: rm zip_map_same)
qed

lemma sorted_distinct_tl_zero:
  assumes "sorted u" and "distinct u" and "(0::nat) \<in> set u"
  shows "set (tl u) = set u - {0}"
proof (cases u)
  case Nil
  with assms show ?thesis by simp
next
  case (Cons x rest)
  with assms(1,3) have "x = 0" by auto
  with Cons assms(2) show ?thesis by auto
qed

lemma filtered_labels:
  fixes c :: rat
  defines "keep xs \<equiv> map (\<lambda>l. if of_nat (np_count xs l) < c then 0 else l) xs"
  assumes ok: "list_all (\<lambda>l. l < length (np_unique xs)) xs"
  shows "set (tl (np_unique (keep xs))) = set (keep xs) - {0}"
    and "i \<in> set (keep xs) \<Longrightarrow> i \<noteq> 0 \<Longrightarrow>
           c \<le> of_nat (np_count xs i) \<and> np_count (keep xs) i = np_count xs i"
proof -
  show "set (tl (np_unique (keep xs))) = set (keep xs) - {0}"
  proof (cases "xs = []")
    case True
    then show ?thesis by (simp add: keep_def np_unique_def)
  next
    case False
    then have "np_unique xs \<noteq> []"
      using np_unique_props(1)[of xs] by (metis set_empty)
    then have "0 \<in> set [0..<length (np_unique xs)]" by simp
    then have "0 \<in> set xs" using np_unique_upt[OF ok] np_unique_props(1)[of xs] by simp
    then have "0 \<in> set (keep xs)" by (force simp: keep_def)
    then have "0 \<in> set (np_unique (keep xs))" by (simp add: np_unique_props(1))
    from sorted_distinct_tl_zero[OF np_unique_props(3) np_unique_props(2) this]
    show ?thesis by (simp add: np_unique_props(1))
  qed
  show "c \<le> of_nat (np_count xs i) \<and> np_count (keep xs) i = np_count xs i"
    if i: "i \<in> set (keep xs)" and nz: "i \<noteq> 0"
  proof -
    from i nz have big: "\<not> of_nat (np_count xs i) < c"
      by (auto simp: keep_def split: if_splits)
    have "filter (\<lambda>x. x = i) (keep xs) = map (\<lambda>l. if of_nat (np_count xs l) < c then 0 else l) (filter (\<lambda>l. l = i) xs)"
      unfolding keep_def filter_map
      by (rule arg_cong[where f = "map _"], rule filter_cong) (use nz big in auto)
    then have "np_count (keep xs) i = np_count xs i"
      by (simp add: np_count_def)
    with big show ?thesis by simp
  qed
qed

lemma seg_of_roi_of [simp]: "seg_of (roi_of key i) = key"
  by (simp add: seg_of_def roi_of_def)

lemma roi_idx_roi_of [simp]: "roi_idx (roi_of key i) = i"
  by (simp add: roi_of_def)

lemma Segmentation_compute_Inr:
  assumes "Segmentation_compute label key d = Inr (label_im, rois)"
  shows "\<exists>avg param lab.
           fetch1 (restrict (\<lambda>k. k = scan_of key) (AverageFrame d)) = Inr avg
         \<and> fetch1 (restrict (\<lambda>k. k = seg_param_id key) (SegmentationParam d)) = Inr param
         \<and> lab = fst (label \<lparr>shape = shape avg, flat = map (exceeds (threshold param)) (flat avg)\<rparr>)
         \<and> list_all (\<lambda>l. l < length (np_unique (flat lab))) (flat lab)
         \<and> shape label_im = shape lab
         \<and> flat label_im =
              map (\<lambda>l. if of_nat (np_count (flat lab) l) < size_cutoff param then 0 else l) (flat lab)
         \<and> rois = map (\<lambda>i. (roi_of key i, roi_mask label_im i)) (tl (np_unique (flat label_im)))"
proof -
  from assms obtain avg param rm where
    avg: "fetch1 (restrict (\<lambda>k. k = scan_of key) (AverageFrame d)) = Inr avg" and
    param: "fetch1 (restrict (\<lambda>k. k = seg_param_id key) (SegmentationParam d)) = Inr param" and
    idx: "index_by (map (\<lambda>s. of_nat s < size_cutoff param)
            (map (np_count (flat (fst (label \<lparr>shape = shape avg, flat = map (exceeds (threshold param)) (flat avg)\<rparr>))))
              (np_unique (flat (fst (label \<lparr>shape = shape avg, flat = map (exceeds (threshold param)) (flat avg)\<rparr>))))))
            (flat (fst (label \<lparr>shape = shape avg, flat = map (exceeds (threshold param)) (flat avg)\<rparr>))) = Inr rm" and
    res: "label_im = (fst (label \<lparr>shape = shape avg, flat = map (exceeds (threshold param)) (flat avg)\<rparr>))
            \<lparr>flat := map2 (\<lambda>l r. if r then 0 else l)
               (flat (fst (label \<lparr>shape = shape avg, flat = map (exceeds (threshold param)) (flat avg)\<rparr>))) rm\<rparr>" and
    rois: "rois = map (\<lambda>i. (roi_of key i, roi_mask label_im i)) (tl (np_unique (flat label_im)))"
    by (auto simp: Segmentation_compute_def bind_err_Inr Let_def)
  let ?lab = "fst (label \<lparr>shape = shape avg, flat = map (exceeds (threshold param)) (flat avg)\<rparr>)"
  from idx have ok: "list_all (\<lambda>l. l < length (np_unique (flat ?lab))) (flat ?lab)"
    by (auto simp: index_by_def split: if_splits)
  have fl: "flat label_im =
      map (\<lambda>l. if of_nat (np_count (flat ?lab) l) < size_cutoff param then 0 else l) (flat ?lab)"
    using index_by_filtered[OF idx] by (simp add: res)
  have sh: "shape label_im = shape ?lab" by (simp add: res)
  from avg param ok sh fl rois show ?thesis by blast
qed

lemma roi_rows_insertable:
  assumes inv: "no_orphans d" and fresh: "key \<notin> set (keys (Segmentation d))"
    and dist: "distinct is"
  shows "insert_rows (map (\<lambda>i. (roi_of key i, f i)) is) (Roi d)
           = Inr (Roi d @ map (\<lambda>i. (roi_of key i, f i)) is)"
proof -
  have inj: "inj_on (roi_of key) (set is)"
    by (rule inj_onI) (metis roi_idx_roi_of)
  have d1: "distinct (map fst (map (\<lambda>i. (roi_of key i, f i)) is))"
    using dist inj by (simp add: comp_def distinct_map)
  have "roi_of key i \<notin> set (keys (Roi d))" for i
  proof
    assume "roi_of key i \<in> set (keys (Roi d))"
    moreover from inv have "\<forall>k \<in> set (keys (Roi d)). seg_of k \<in> set (keys (Segmentation d))"
      by (simp add: no_orphans_def list_all_iff)
    ultimately have "seg_of (roi_of key i) \<in> set (keys (Segmentation d))"
      by blast
    with fresh show False by simp
  qed
  then have d2: "list_all (\<lambda>r. fst r \<notin> set (keys (Roi d))) (map (\<lambda>i. (roi_of key i, f i)) is)"
    by (simp add: list_all_iff)
  from d1 d2 show ?thesis by (simp add: insert_rows_def)
qed

lemma example_run:
  "Segmentation_make example_label
     \<lparr>mouse_id = 0, session_date = ''2017-05-15'', scan_idx = 1, seg_param_id = 0\<rparr> example_db
   = \<lparr>visited =
        [example_db,
         example_db\<lparr>Segmentation :=
           [(\<lparr>mouse_id = 0, session_date = ''2017-05-15'', scan_idx = 1, seg_param_id = 0\<rparr>,
             \<lparr>shape = [2, 3], flat = [1, 0, 0, 1, 0, 0]\<rparr>)]\<rparr>,
         example_db\<lparr>Segmentation :=
           [(\<lparr>mouse_id = 0, session_date = ''2017-05-15'', scan_idx = 1, seg_param_id = 0\<rparr>,
             \<lparr>shape = [2, 3], flat = [1, 0, 0, 1, 0, 0]\<rparr>)],
           Roi :=
           [(\<lparr>mouse_id = 0, session_date = ''2017-05-15'', scan_idx = 1, seg_param_id = 0,
               roi_idx = 1\<rparr>,
             \<lparr>shape = [2, 3], flat = [True, False, False, True, False, False]\<rparr>)]\<rparr>],
      detected = Some 1, raised = None\<rparr>"
  by (simp add: Segmentation_make_def Segmentation_compute_def example_db_def example_label_def
      fetch1_def restrict_def scan_of_def exceeds_def np_unique_def np_count_def index_by_def
      roi_of_def roi_mask_def insert1_def insert_rows_def keys_def Let_def)

text \<open>
  When the label image has a background pixel and its labels are \<open>0, \<dots>, nb\<close>, every step of
  \<open>Segmentation.make\<close> succeeds: the components smaller than \<open>size_cutoff\<close> are set to 0,
  the result is stored as \<open>segmented_masks\<close>, and one \<open>Roi\<close> row is stored per remaining
  nonzero label. Since labelling gives a nonzero label only where the mask holds, a nonzero
  pixel of \<open>segmented_masks\<close> is a pixel where the average image exceeds the threshold.
\<close>

lemma Segmentation_make_with_background:
  assumes avg: "fetch1 (restrict (\<lambda>k. k = scan_of key) (AverageFrame d)) = Inr avg"
    and param: "fetch1 (restrict (\<lambda>k. k = seg_param_id key) (SegmentationParam d)) = Inr param"
    and lab: "fst (label \<lparr>shape = shape avg, flat = map (exceeds (threshold param)) (flat avg)\<rparr>) = lab"
    and labels: "set (flat lab) = {0..nb}"
    and fresh: "key \<notin> set (keys (Segmentation d))"
    and inv: "no_orphans d"
  defines "label_im \<equiv>
    lab\<lparr>flat := map (\<lambda>l. if of_nat (np_count (flat lab) l) < size_cutoff param then 0 else l)
                  (flat lab)\<rparr>"
  defines "rois \<equiv> map (\<lambda>i. (roi_of key i, roi_mask label_im i)) (tl (np_unique (flat label_im)))"
  shows "Segmentation_make label key d =
           \<lparr>visited = [d, d\<lparr>Segmentation := Segmentation d @ [(key, label_im)]\<rparr>,
                       d\<lparr>Segmentation := Segmentation d @ [(key, label_im)],
                         Roi := Roi d @ rois\<rparr>],
            detected = Some (length rois), raised = None\<rparr>"
proof -
  let ?u = "np_unique (flat lab)"
  have "card (set ?u) = Suc nb" by (simp add: np_unique_props(1) labels)
  then have len: "length ?u = Suc nb" by (simp add: distinct_card np_unique_props(2))
  have ok: "list_all (\<lambda>l. l < length ?u) (flat lab)"
    using labels by (auto simp: list_all_iff len)
  let ?small = "map (\<lambda>s. of_nat s < size_cutoff param) (map (np_count (flat lab)) ?u)"
  have idx: "index_by ?small (flat lab) = Inr (map ((!) ?small) (flat lab))"
    using ok by (simp add: index_by_def)
  have comp: "Segmentation_compute label key d = Inr (label_im, rois)"
    using index_by_filtered[OF idx]
    by (simp add: Segmentation_compute_def avg param lab Let_def idx label_im_def rois_def
        del: map_map)
  have ins: "insert1 (key, label_im) (Segmentation d) = Inr (Segmentation d @ [(key, label_im)])"
    using fresh by (simp add: insert1_def)
  have dist: "distinct (tl (np_unique (flat label_im)))"
    by (simp add: distinct_tl np_unique_props(2))
  have roi: "insert_rows rois (Roi d) = Inr (Roi d @ rois)"
    unfolding rois_def by (rule roi_rows_insertable[OF inv fresh dist])
  show ?thesis
    by (simp add: Segmentation_make_def comp ins roi Let_def)
qed

lemma segmented_masks_above_threshold:
  assumes contract: "\<forall>p < length (flat lab). flat lab ! p \<noteq> 0 \<longrightarrow> exceeds thr (flat avg ! p)"
    and p: "p < length (flat lab)"
    and nz: "map (\<lambda>l. if of_nat (np_count (flat lab) l) < (c::rat) then 0 else l) (flat lab) ! p \<noteq> 0"
  shows "exceeds thr (flat avg ! p)"
proof -
  from nz p have "flat lab ! p \<noteq> 0" by (auto split: if_splits)
  with contract p show ?thesis by blast
qed

text \<open>
  Claim C7. \<open>Segmentation.make\<close> thresholds the average image, labels the mask, removes the
  components below \<open>size_cutoff\<close> and stores the label image and one \<open>Roi\<close> row per remaining
  label. The code does not do so when no pixel is background: \<open>sizes\<close> is indexed by
  position in \<open>np.unique(label_im)\<close>, which then starts at label 1, but
  \<open>small_size_filter[label_im]\<close> indexes it by label, so the largest label is out of range.
  For every non-empty label image without a 0, \<open>make\<close> raises IndexError before any insert
  and stores nothing.
\<close>

theorem Segmentation_make_no_background:
  assumes avg: "fetch1 (restrict (\<lambda>k. k = scan_of key) (AverageFrame d)) = Inr avg"
    and param: "fetch1 (restrict (\<lambda>k. k = seg_param_id key) (SegmentationParam d)) = Inr param"
    and lab: "fst (label \<lparr>shape = shape avg, flat = map (exceeds (threshold param)) (flat avg)\<rparr>) = lab"
    and nonempty: "flat lab \<noteq> []"
    and full: "0 \<notin> set (flat lab)"
  shows "Segmentation_make label key d = \<lparr>visited = [d], detected = None, raised = Some IndexError\<rparr>"
proof -
  have "index_by (map (\<lambda>s. of_nat s < size_cutoff param)
          (map (np_count (flat lab)) (np_unique (flat lab)))) (flat lab) = Inl IndexError"
    by (rule index_by_no_background[OF nonempty full])
  then have "Segmentation_compute label key d = Inl IndexError"
    by (simp add: Segmentation_compute_def avg param lab Let_def del: map_map)
  then show ?thesis by (simp add: Segmentation_make_def)
qed

theorem Segmentation_make_no_background_witness:
  "Segmentation_make example_label
     \<lparr>mouse_id = 0, session_date = ''2017-05-15'', scan_idx = 2, seg_param_id = 0\<rparr> example_db
   = \<lparr>visited = [example_db], detected = None, raised = Some IndexError\<rparr>"
proof -
  let ?key = "\<lparr>mouse_id = 0, session_date = ''2017-05-15'', scan_idx = 2, seg_param_id = 0\<rparr>"
  let ?avg = "\<lparr>shape = [2, 2], flat = [Finite 60, Finite 70, Finite 80, Finite 90]\<rparr>"
  let ?param = "\<lparr>threshold = 50, size_cutoff = 2\<rparr>"
  let ?lab = "\<lparr>shape = [2, 2], flat = [1, 1, 1, 1 :: nat]\<rparr>"
  have avg: "fetch1 (restrict (\<lambda>k. k = scan_of ?key) (AverageFrame example_db)) = Inr ?avg"
    by (simp add: fetch1_def restrict_def scan_of_def example_db_def)
  have param: "fetch1 (restrict (\<lambda>k. k = seg_param_id ?key) (SegmentationParam example_db)) = Inr ?param"
    by (simp add: fetch1_def restrict_def example_db_def)
  have lab: "fst (example_label \<lparr>shape = shape ?avg, flat = map (exceeds (threshold ?param)) (flat ?avg)\<rparr>) = ?lab"
    by (simp add: example_label_def exceeds_def)
  have nonempty: "flat ?lab \<noteq> []" by simp
  have full: "0 \<notin> set (flat ?lab)" by simp
  from Segmentation_make_no_background[where label = example_label, OF avg param lab nonempty full]
  show ?thesis .
qed

text \<open>
  Claim C9. In a database without orphan part rows, an execution of \<open>Segmentation.make\<close>
  that reports a number of ROIs completes without an exception, and the \<open>Roi\<close> rows it
  appends are as many as reported. Each of them carries the key of the master row, its
  \<open>roi_idx\<close> is a nonzero label of the filtered (stored) label image, its mask is the set of
  pixels with that label and contains at least \<open>size_cutoff\<close> pixels, and the \<open>roi_idx\<close>
  values are exactly the nonzero labels that remain after the size filter.
\<close>

theorem Segmentation_make_rois:
  assumes inv: "no_orphans d"
    and det: "detected (Segmentation_make label key d) = Some c"
  shows "\<exists>param label_im rois.
           fetch1 (restrict (\<lambda>k. k = seg_param_id key) (SegmentationParam d)) = Inr param
         \<and> raised (Segmentation_make label key d) = None
         \<and> Segmentation (last (visited (Segmentation_make label key d)))
             = Segmentation d @ [(key, label_im)]
         \<and> Roi (last (visited (Segmentation_make label key d))) = Roi d @ rois
         \<and> c = length rois
         \<and> distinct (map fst rois)
         \<and> list_all (\<lambda>(k, m). seg_of k = key \<and> roi_idx k \<noteq> 0 \<and> roi_idx k \<in> set (flat label_im)
                         \<and> m = roi_mask label_im (roi_idx k)
                         \<and> size_cutoff param \<le> of_nat (length (filter id (flat m)))) rois
         \<and> roi_idx ` fst ` set rois = set (flat label_im) - {0}"
proof -
  let ?r = "Segmentation_make label key d"
  from det obtain label_im rois seg where
    comp: "Segmentation_compute label key d = Inr (label_im, rois)" and
    ins: "insert1 (key, label_im) (Segmentation d) = Inr seg" and
    c: "c = length rois"
    by (auto simp: Segmentation_make_def Let_def split: sum.splits prod.splits)
  from ins have fresh: "key \<notin> set (keys (Segmentation d))"
    and seg: "seg = Segmentation d @ [(key, label_im)]"
    by (auto simp: insert1_def split: if_splits)
  from Segmentation_compute_Inr[OF comp] obtain param and lab :: "nat ndarray" where
    param: "fetch1 (restrict (\<lambda>k. k = seg_param_id key) (SegmentationParam d)) = Inr param" and
    ok: "list_all (\<lambda>l. l < length (np_unique (flat lab))) (flat lab)" and
    fl: "flat label_im =
           map (\<lambda>l. if of_nat (np_count (flat lab) l) < size_cutoff param then 0 else l) (flat lab)" and
    rois: "rois = map (\<lambda>i. (roi_of key i, roi_mask label_im i)) (tl (np_unique (flat label_im)))"
    by blast
  let ?is = "tl (np_unique (flat label_im))"
  have dist: "distinct ?is" by (simp add: distinct_tl np_unique_props(2))
  have nz: "set ?is = set (flat label_im) - {0}"
    using filtered_labels(1)[OF ok, of "size_cutoff param"] by (simp add: fl)
  have big: "size_cutoff param \<le> of_nat (np_count (flat label_im) i)" if "i \<in> set ?is" for i
  proof -
    from that nz have "i \<in> set (flat label_im)" and "i \<noteq> 0" by auto
    with filtered_labels(2)[OF ok, of i "size_cutoff param"] show ?thesis by (simp add: fl)
  qed
  have cnt: "length (filter id (flat (roi_mask label_im i))) = np_count (flat label_im) i" for i
    by (simp add: roi_mask_def np_count_def filter_map comp_def)
  have roi: "insert_rows rois (Roi (d\<lparr>Segmentation := seg\<rparr>)) = Inr (Roi d @ rois)"
    using roi_rows_insertable[OF inv fresh dist, of "roi_mask label_im"] by (simp add: rois)
  have run: "?r = \<lparr>visited = [d, d\<lparr>Segmentation := seg\<rparr>, d\<lparr>Segmentation := seg, Roi := Roi d @ rois\<rparr>],
                   detected = Some (length rois), raised = None\<rparr>"
    using roi by (simp add: Segmentation_make_def comp ins Let_def)
  have rows: "list_all (\<lambda>(k, m). seg_of k = key \<and> roi_idx k \<noteq> 0 \<and> roi_idx k \<in> set (flat label_im)
                         \<and> m = roi_mask label_im (roi_idx k)
                         \<and> size_cutoff param \<le> of_nat (length (filter id (flat m)))) rois"
    unfolding rois list_all_iff using nz big by (auto simp: cnt)
  have idxs: "roi_idx ` fst ` set rois = set (flat label_im) - {0}"
    using nz by (simp add: rois image_image)
  have keys: "distinct (map fst rois)"
    using roi by (simp add: insert_rows_def split: if_splits)
  show ?thesis
    apply (rule exI[of _ param], rule exI[of _ label_im], rule exI[of _ rois])
    using param c rows idxs keys by (simp add: run seg)
qed

theorem Segmentation_make_rois_witness:
  "no_orphans example_db
   \<and> detected (Segmentation_make example_label
        \<lparr>mouse_id = 0, session_date = ''2017-05-15'', scan_idx = 1, seg_param_id = 0\<rparr>
        example_db) = Some 1
   \<and> raised (Segmentation_make example_label
        \<lparr>mouse_id = 0, session_date = ''2017-05-15'', scan_idx = 1, seg_param_id = 0\<rparr>
        example_db) = None
   \<and> length (Roi (last (visited (Segmentation_make example_label
        \<lparr>mouse_id = 0, session_date = ''2017-05-15'', scan_idx = 1, seg_param_id = 0\<rparr>
        example_db)))) = 1"
proof -
  let ?key = "\<lparr>mouse_id = 0, session_date = ''2017-05-15'', scan_idx = 1, seg_param_id = 0\<rparr>"
  let ?r = "Segmentation_make example_label ?key example_db"
  have inv: "no_orphans example_db"
    by (simp add: no_orphans_def example_db_def keys_def)
  have det: "detected ?r = Some 1"
    by (simp add: example_run)
  have empty: "Roi example_db = []" by (simp add: example_db_def)
  note rows = Segmentation_make_rois[OF inv det]
  then obtain param where "\<exists>label_im rois.
           fetch1 (restrict (\<lambda>k. k = seg_param_id ?key) (SegmentationParam example_db)) = Inr param
         \<and> raised ?r = None
         \<and> Segmentation (last (visited ?r)) = Segmentation example_db @ [(?key, label_im)]
         \<and> Roi (last (visited ?r)) = Roi example_db @ rois
         \<and> 1 = length rois
         \<and> distinct (map fst rois)
         \<and> list_all (\<lambda>(k, m). seg_of k = ?key \<and> roi_idx k \<noteq> 0 \<and> roi_idx k \<in> set (flat label_im)
                         \<and> m = roi_mask label_im (roi_idx k)
                         \<and> size_cutoff param \<le> of_nat (length (filter id (flat m)))) rois
         \<and> roi_idx ` fst ` set rois = set (flat label_im) - {0}" ..
  then obtain label_im where "\<exists>rois.
           fetch1 (restrict (\<lambda>k. k = seg_param_id ?key) (SegmentationParam example_db)) = Inr param
         \<and> raised ?r = None
         \<and> Segmentation (last (visited ?r)) = Segmentation example_db @ [(?key, label_im)]
         \<and> Roi (last (visited ?r)) = Roi example_db @ rois
         \<and> 1 = length rois
         \<and> distinct (map fst rois)
         \<and> list_all (\<lambda>(k, m). seg_of k = ?key \<and> roi_idx k \<noteq> 0 \<and> roi_idx k \<in> set (flat label_im)
                         \<and> m = roi_mask label_im (roi_idx k)
                         \<and> size_cutoff param \<le> of_nat (length (filter id (flat m)))) rois
         \<and> roi_idx ` fst ` set rois = set (flat label_im) - {0}" ..
  then obtain rois where c:
    "fetch1 (restrict (\<lambda>k. k = seg_param_id ?key) (SegmentationParam example_db)) = Inr param
         \<and> raised ?r = None
         \<and> Segmentation (last (visited ?r)) = Segmentation example_db @ [(?key, label_im)]
         \<and> Roi (last (visited ?r)) = Roi example_db @ rois
         \<and> 1 = length rois
         \<and> distinct (map fst rois)
         \<and> list_all (\<lambda>(k, m). seg_of k = ?key \<and> roi_idx k \<noteq> 0 \<and> roi_idx k \<in> set (flat label_im)
                         \<and> m = roi_mask label_im (roi_idx k)
                         \<and> size_cutoff param \<le> of_nat (length (filter id (flat m)))) rois
         \<and> roi_idx ` fst ` set rois = set (flat label_im) - {0}" ..
  note ok = c[THEN conjunct2, THEN conjunct1]
  note roi = c[THEN conjunct2, THEN conjunct2, THEN conjunct2, THEN conjunct1]
  note len = c[THEN conjunct2, THEN conjunct2, THEN conjunct2, THEN conjunct2, THEN conjunct1]
  from roi len have "length (Roi (last (visited ?r))) = 1"
    unfolding empty by simp
  with inv det ok show ?thesis by (intro conjI)
qed

section \<open>Master rows before part rows\<close>

lemma no_orphans_master:
  "no_orphans d \<Longrightarrow> no_orphans (d\<lparr>Segmentation := Segmentation d @ rows\<rparr>)"
  "no_orphans d \<Longrightarrow> no_orphans (d\<lparr>Fluorescence := Fluorescence d @ rows'\<rparr>)"
  by (auto simp: no_orphans_def list_all_iff keys_def)

lemma no_orphans_Roi:
  assumes "no_orphans d" and "list_all (\<lambda>r. seg_of (fst r) \<in> set (keys (Segmentation d))) rows"
  shows "no_orphans (d\<lparr>Roi := Roi d @ rows\<rparr>)"
  using assms by (auto simp: no_orphans_def list_all_iff keys_def)

lemma no_orphans_Trace:
  assumes "no_orphans d" and "list_all (\<lambda>r. seg_of (fst r) \<in> set (keys (Fluorescence d))) rows"
  shows "no_orphans (d\<lparr>Trace := Trace d @ rows\<rparr>)"
  using assms by (auto simp: no_orphans_def list_all_iff keys_def)

lemma trace_rows_keys:
  "trace_rows n wh im rows = Inr traces \<Longrightarrow> map fst traces = map fst rows"
proof (induction rows arbitrary: traces)
  case Nil
  then show ?case by simp
next
  case (Cons r rows)
  obtain k m where r: "r = (k, m)" by (cases r)
  from Cons.prems obtain ts where
    rest: "trace_rows n wh im rows = Inr ts" and "\<exists>t. traces = (k, t) # ts"
    by (auto simp: r bind_err_Inr Let_def)
  with Cons.IH[OF rest] show ?case by (auto simp: r)
qed

lemma Segmentation_make_no_orphans:
  assumes inv: "no_orphans d"
  shows "list_all no_orphans (visited (Segmentation_make label key d))"
proof (cases "Segmentation_compute label key d")
  case (Inl e)
  with inv show ?thesis by (simp add: Segmentation_make_def)
next
  case (Inr res)
  obtain label_im rois where res: "res = (label_im, rois)" by (cases res)
  from Segmentation_compute_Inr[OF Inr[unfolded res]]
  have rois: "rois = map (\<lambda>i. (roi_of key i, roi_mask label_im i)) (tl (np_unique (flat label_im)))"
    by blast
  show ?thesis
  proof (cases "insert1 (key, label_im) (Segmentation d)")
    case (Inl e)
    with inv show ?thesis by (simp add: Segmentation_make_def Inr res)
  next
    case seg: (Inr seg)
    then have seg_eq: "seg = Segmentation d @ [(key, label_im)]"
      by (auto simp: insert1_def split: if_splits)
    let ?d1 = "d\<lparr>Segmentation := seg\<rparr>"
    have inv1: "no_orphans ?d1"
      unfolding seg_eq by (rule no_orphans_master(1)[OF inv])
    show ?thesis
    proof (cases "insert_rows rois (Roi d)")
      case (Inl e)
      with inv inv1 show ?thesis by (simp add: Segmentation_make_def Inr res seg Let_def)
    next
      case roi: (Inr roi)
      then have roi_eq: "roi = Roi d @ rois"
        by (auto simp: insert_rows_def split: if_splits)
      have "list_all (\<lambda>r. seg_of (fst r) \<in> set (keys (Segmentation ?d1))) rois"
        by (simp add: rois list_all_iff seg_eq keys_def)
      from no_orphans_Roi[OF inv1 this] have "no_orphans (?d1\<lparr>Roi := roi\<rparr>)"
        by (simp add: roi_eq)
      with inv inv1 show ?thesis by (simp add: Segmentation_make_def Inr res seg roi Let_def)
    qed
  qed
qed

lemma Fluorescence_make_no_orphans:
  assumes inv: "no_orphans d"
  shows "list_all no_orphans (fst (Fluorescence_make files key d))"
proof (cases "Fluorescence_load files key d")
  case (Inl e)
  with inv show ?thesis by (simp add: Fluorescence_make_def)
next
  case (Inr res)
  obtain n wh im_reshaped fps' where res: "res = (n, wh, im_reshaped, fps')"
    by (cases res) auto
  let ?time = "map (\<lambda>t. if fps' = 0 then None else Some (of_nat t / fps')) [0..<n]"
  show ?thesis
  proof (cases "insert1 (key, ?time) (Fluorescence d)")
    case (Inl e)
    with inv show ?thesis by (simp add: Fluorescence_make_def Inr res)
  next
    case fl: (Inr fl)
    then have fl_eq: "fl = Fluorescence d @ [(key, ?time)]"
      by (auto simp: insert1_def split: if_splits)
    let ?d1 = "d\<lparr>Fluorescence := fl\<rparr>"
    have inv1: "no_orphans ?d1"
      unfolding fl_eq by (rule no_orphans_master(2)[OF inv])
    show ?thesis
    proof (cases "trace_rows n wh im_reshaped (restrict (\<lambda>k. seg_of k = key) (Roi d))")
      case (Inl e)
      with inv inv1 show ?thesis by (simp add: Fluorescence_make_def Inr res fl Let_def)
    next
      case tr: (Inr traces)
      show ?thesis
      proof (cases "insert_rows traces (Trace d)")
        case (Inl e)
        with inv inv1 show ?thesis by (simp add: Fluorescence_make_def Inr res fl tr Let_def)
      next
        case ins: (Inr trace_table)
        then have tr_eq: "trace_table = Trace d @ traces"
          by (auto simp: insert_rows_def split: if_splits)
        have "set (map fst traces) \<subseteq> {k. seg_of k = key}"
          unfolding trace_rows_keys[OF tr] by (auto simp: restrict_def)
        then have "list_all (\<lambda>r. seg_of (fst r) \<in> set (keys (Fluorescence ?d1))) traces"
          by (auto simp: list_all_iff fl_eq keys_def)
        from no_orphans_Trace[OF inv1 this] have "no_orphans (?d1\<lparr>Trace := trace_table\<rparr>)"
          by (simp add: tr_eq)
        with inv inv1 show ?thesis
          by (simp add: Fluorescence_make_def Inr res fl tr ins Let_def)
      qed
    qed
  qed
qed

text \<open>
  Claim C8. \<open>Segmentation.make\<close> and \<open>Fluorescence.make\<close> insert the master row before the
  part rows: started in a database without orphan part rows, every database state either
  execution passes through, whether it completes or raises, has no \<open>Roi\<close> row without its
  \<open>Segmentation\<close> row and no \<open>Trace\<close> row without its \<open>Fluorescence\<close> row.
\<close>

theorem master_before_parts:
  assumes "no_orphans d"
  shows "list_all no_orphans (visited (Segmentation_make label key d))
         \<and> list_all no_orphans (fst (Fluorescence_make files key d))"
  using Segmentation_make_no_orphans[OF assms] Fluorescence_make_no_orphans[OF assms] by simp

theorem master_before_parts_witness:
  "no_orphans example_db
   \<and> list_all no_orphans (visited (Segmentation_make example_label example_key example_db))
   \<and> length (visited (Segmentation_make example_label example_key example_db)) = 3
   \<and> list_all no_orphans (fst (Fluorescence_make example_files example_key
         (last (visited (Segmentation_make example_label example_key example_db)))))
   \<and> length (fst (Fluorescence_make example_files example_key
         (last (visited (Segmentation_make example_label example_key example_db))))) = 3"
proof -
  let ?d2 = "last (visited (Segmentation_make example_label example_key example_db))"
  have inv: "no_orphans example_db"
    by (simp add: no_orphans_def example_db_def keys_def)
  note seg = master_before_parts[OF inv, of example_label example_key example_files]
  have len: "length (visited (Segmentation_make example_label example_key example_db)) = 3"
    by (simp add: example_key_def example_run)
  from seg len have inv2: "no_orphans ?d2"
    by (simp add: example_key_def example_run)
  note fl = master_before_parts[OF inv2, of example_label example_key example_files]
  have d2: "?d2 = example_db\<lparr>Segmentation :=
           [(\<lparr>mouse_id = 0, session_date = ''2017-05-15'', scan_idx = 1, seg_param_id = 0\<rparr>,
             \<lparr>shape = [2, 3], flat = [1, 0, 0, 1, 0, 0]\<rparr>)],
           Roi :=
           [(\<lparr>mouse_id = 0, session_date = ''2017-05-15'', scan_idx = 1, seg_param_id = 0,
               roi_idx = 1\<rparr>,
             \<lparr>shape = [2, 3], flat = [True, False, False, True, False, False]\<rparr>)]\<rparr>"
    by (simp add: example_key_def example_run)
  have len2: "length (fst (Fluorescence_make example_files example_key ?d2)) = 3"
    unfolding d2
    by (simp add: example_key_def Fluorescence_make_def Fluorescence_load_def
        image_path_def imread_def example_files_def example_db_def Scan_inserted_def
        fetch1_def restrict_def session_of_def scan_of_def seg_of_def os_path_join_def
        np_shape3_def np_reshape_def insert1_def insert_rows_def keys_def Let_def)
  from inv seg len fl len2 show ?thesis by simp
qed

section \<open>Properties of \<open>populate\<close>\<close>















end
